theory Spec2Isabelle
  imports Main
begin

section \<open>Values, exceptions and output\<close>

text \<open>
  The exceptions the loader can meet. Every one of them is a subclass of Python's
  \<open>Exception\<close>, so the handler \<open>except Exception\<close> of \<open>ingest_batch\<close> catches each.
  \<^item> \<open>RequestException\<close>: \<open>requests.get\<close> could not complete the request;
  \<^item> \<open>HTTPError\<close>: raised by \<open>raise_for_status\<close>, with the status code;
  \<^item> \<open>ParserError\<close>: \<open>pd.read_csv\<close> refused the text;
  \<^item> \<open>KeyError\<close>: a column lookup failed, with the labels that are missing;
  \<^item> \<open>ValueError\<close>: \<open>int\<close> refused a string, or a frame could not be serialised;
  \<^item> \<open>DatabaseError\<close>: the Snowflake connector failed.
\<close>

datatype exn =
    RequestException string
  | HTTPError nat
  | ParserError string
  | KeyError "string list"
  | ValueError string
  | DatabaseError string

text \<open>What a call of \<open>ingest_batch\<close> can hand back to its caller.\<close>

datatype pyval = PyNone | PyInt int

text \<open>
  A value in a frame or in the table. The loader never computes with values: it converts
  the values of the \<open>batch_id\<close> column to strings, and it asks whether an integer is
  among the stored \<open>BATCH_ID\<close> values. So a value is
  \<^item> \<open>IntCell n\<close>: the integer \<open>n\<close> (in a frame read from CSV, a 64-bit integer);
  \<^item> \<open>NumCell n s\<close>: a value that is not an integer but is equal to the integer \<open>n\<close> in
    Python (the floating-point number \<open>10.0\<close>, a decimal), with the text \<open>s\<close> that \<open>str\<close>
    gives for it;
  \<^item> \<open>TextCell s\<close>: any other value (text, a number with a fractional part, a missing
    value, \<open>None\<close>), with the text \<open>s\<close> that \<open>str\<close> gives for it.
\<close>

datatype cell = IntCell int | NumCell int string | TextCell string

text \<open>
  A pandas DataFrame, column by column: \<open>nrows\<close> is \<open>len(df)\<close>, and \<open>cols\<close> lists the
  columns in order, each with its label and its cells. Labels may repeat.
\<close>

record dataframe =
  nrows :: nat
  cols :: "(string \<times> cell list) list"

text \<open>A \<open>requests.Response\<close>: \<open>body\<close> is \<open>r.text\<close>.\<close>

record response =
  status_code :: nat
  body :: string

text \<open>The lines the loader prints, one constructor per \<open>print\<close> statement.\<close>

datatype event =
    AlreadyLoaded "cell set"
  | Skipping string
  | Ingesting string
  | Loaded string nat
  | ErrorLoading string exn

text \<open>
  The collaborators of the loader, which are not part of the repository:
  \<^item> \<open>http_get\<close>: what \<open>requests.get\<close> returns or raises for a URL;
  \<^item> \<open>read_csv\<close>: what \<open>pd.read_csv\<close> returns or raises for a text;
  \<^item> \<open>conn_up\<close>: whether the store connection is up at the \<open>k\<close>-th operation on the
    store (the connection is opened once and never reopened);
  \<^item> \<open>query_fault\<close>: the error of the \<open>SELECT DISTINCT\<close> query, if the store refuses it;
  \<^item> \<open>write_fault\<close>: the error of a bulk write of a frame, if the store refuses it.
\<close>

record env =
  http_get :: "string \<Rightarrow> exn + response"
  read_csv :: "string \<Rightarrow> exn + dataframe"
  conn_up :: "nat \<Rightarrow> bool"
  query_fault :: "exn option"
  write_fault :: "dataframe \<Rightarrow> exn option"

text \<open>
  The state a run changes: the table \<open>ORDERS\<close> as the sequence of the bulk appends it
  has received, the number of operations attempted on the store connection, and the
  lines printed so far.
\<close>

record world =
  table :: "dataframe list"
  store_ops :: nat
  stdout :: "event list"

definition py_print :: "event \<Rightarrow> world \<Rightarrow> world" where
  "py_print ev w = w\<lparr>stdout := stdout w @ [ev]\<rparr>"

section \<open>Strings: \<open>strip\<close>, \<open>upper\<close>, \<open>int\<close>, \<open>str\<close>\<close>

text \<open>
  A string is a list of ASCII characters (codes below 128), as the identifiers and the
  column labels of the batch source are; characters beyond ASCII are outside the model.
  \<open>is_space\<close> holds of the ASCII characters that \<open>strip\<close> drops: tab, line feed,
  vertical tab, form feed, carriage return, the separators 28 to 31, and the space.
  \<open>upper\<close> maps the letters a to z to A to Z.
\<close>

definition is_space :: "char \<Rightarrow> bool" where
  "is_space c = (let n = (of_char c :: nat) in (9 \<le> n \<and> n \<le> 13) \<or> (28 \<le> n \<and> n \<le> 32))"

definition py_strip :: "string \<Rightarrow> string" where
  "py_strip s = rev (dropWhile is_space (rev (dropWhile is_space s)))"

definition upper_char :: "char \<Rightarrow> char" where
  "upper_char c = (let n = (of_char c :: nat) in if 97 \<le> n \<and> n \<le> 122 then char_of (n - 32) else c)"

definition py_upper :: "string \<Rightarrow> string" where
  "py_upper s = map upper_char s"

definition is_digit :: "char \<Rightarrow> bool" where
  "is_digit c = (let n = (of_char c :: nat) in 48 \<le> n \<and> n \<le> 57)"

definition digit_val :: "char \<Rightarrow> nat" where
  "digit_val c = of_char c - 48"

text \<open>
  The digits of an integer literal after its first digit: digits, with single
  underscores allowed between two digits. \<open>acc\<close> is the value read so far.
\<close>

fun int_digits :: "nat \<Rightarrow> string \<Rightarrow> nat option" where
  "int_digits acc [] = Some acc"
| "int_digits acc [c] = (if is_digit c then Some (acc * 10 + digit_val c) else None)"
| "int_digits acc (c # d # ds) =
     (if is_digit c then int_digits (acc * 10 + digit_val c) (d # ds)
      else if c = CHR ''_'' \<and> is_digit d then int_digits (acc * 10 + digit_val d) ds
      else None)"

text \<open>
  Python's \<open>int(s)\<close> for a string. The whitespace it drops around the literal is
  narrower than that of \<open>strip\<close>: tab, line feed, vertical tab, form feed, carriage
  return and the space, but not the separators 28 to 31. One sign may come first, and
  the rest must be a literal in base 10 of at most 4300 digits (the default limit of
  Python 3.11 for the conversion, which the loader does not change). Anything else
  raises \<open>ValueError\<close>.
\<close>

definition is_int_space :: "char \<Rightarrow> bool" where
  "is_int_space c = (let n = (of_char c :: nat) in (9 \<le> n \<and> n \<le> 13) \<or> n = 32)"

definition MAX_STR_DIGITS :: nat where
  "MAX_STR_DIGITS = 4300"

definition py_int :: "string \<Rightarrow> exn + int" where
  "py_int s =
     (let t = rev (dropWhile is_int_space (rev (dropWhile is_int_space s)));
          neg = (case t of c # _ \<Rightarrow> c = CHR ''-'' | [] \<Rightarrow> False);
          u = (case t of c # r \<Rightarrow> if c = CHR ''-'' \<or> c = CHR ''+'' then r else t | [] \<Rightarrow> t)
      in case u of
           [] \<Rightarrow> Inl (ValueError s)
         | c # cs \<Rightarrow>
             if is_digit c \<and> length (filter is_digit u) \<le> MAX_STR_DIGITS then
               (case int_digits (digit_val c) cs of
                  None \<Rightarrow> Inl (ValueError s)
                | Some n \<Rightarrow> Inr (if neg then - int n else int n))
             else Inl (ValueError s))"

function nat_digits :: "nat \<Rightarrow> string" where
  "nat_digits n = (if n < 10 then [char_of (48 + n)] else nat_digits (n div 10) @ [char_of (48 + n mod 10)])"
  by pat_completeness auto
termination
  by (relation "measure (\<lambda>n. n)") auto

definition py_str_int :: "int \<Rightarrow> string" where
  "py_str_int i = (if i < 0 then CHR ''-'' # nat_digits (nat (- i)) else nat_digits (nat i))"

fun py_str :: "cell \<Rightarrow> string" where
  "py_str (IntCell i) = py_str_int i"
| "py_str (NumCell i s) = s"
| "py_str (TextCell s) = s"

section \<open>The pandas operations the loader uses\<close>

text \<open>\<open>df[name]\<close>: the column with that label, \<open>KeyError\<close> when there is none.\<close>

definition getitem :: "dataframe \<Rightarrow> string \<Rightarrow> exn + cell list" where
  "getitem df name =
     (case map_of (cols df) name of
        None \<Rightarrow> Inl (KeyError [name])
      | Some vs \<Rightarrow> Inr vs)"

text \<open>
  \<open>df[name] = v\<close> for a scalar \<open>v\<close>: every column with that label is filled with \<open>v\<close>;
  when there is none, a new last column is added.
\<close>

definition setitem :: "dataframe \<Rightarrow> string \<Rightarrow> cell \<Rightarrow> dataframe" where
  "setitem df name v =
     (if name \<in> set (map fst (cols df))
      then df\<lparr>cols := map (\<lambda>(c, vs). if c = name then (c, replicate (nrows df) v) else (c, vs)) (cols df)\<rparr>
      else df\<lparr>cols := cols df @ [(name, replicate (nrows df) v)]\<rparr>)"

text \<open>
  \<open>df[[n1, n2, ...]]\<close>: for each requested label in turn, every column with that label;
  \<open>KeyError\<close> with the missing labels when a label has no column.
\<close>

definition getitem_list :: "dataframe \<Rightarrow> string list \<Rightarrow> exn + dataframe" where
  "getitem_list df names =
     (let missing = filter (\<lambda>n. n \<notin> set (map fst (cols df))) names
      in if missing \<noteq> [] then Inl (KeyError missing)
         else Inr (df\<lparr>cols := concat (map (\<lambda>n. filter (\<lambda>(c, vs). c = n) (cols df)) names)\<rparr>))"

section \<open>The requests operations the loader uses\<close>

text \<open>\<open>r.raise_for_status()\<close>: \<open>HTTPError\<close> for a status from 400 to 599.\<close>

definition raise_for_status :: "response \<Rightarrow> exn + unit" where
  "raise_for_status r =
     (if 400 \<le> status_code r \<and> status_code r < 600 then Inl (HTTPError (status_code r)) else Inr ())"

definition BATCH_LIST_URL :: string where
  "BATCH_LIST_URL = ''http://localhost:5000/api/batches/batch_list.csv''"

definition batch_data_url :: "string \<Rightarrow> string" where
  "batch_data_url batch_id = ''http://localhost:5000/api/batch_data/'' @ batch_id"

section \<open>The table store\<close>

text \<open>
  The values of the column \<open>BATCH_ID\<close> that \<open>SELECT DISTINCT\<close> returns, over all
  appended frames, as they are stored. A frame without that column has \<open>NULL\<close> there,
  which Python reads as \<open>None\<close>.
\<close>

definition frame_batch_ids :: "dataframe \<Rightarrow> cell list" where
  "frame_batch_ids df =
     (case map_of (cols df) ''BATCH_ID'' of
        None \<Rightarrow> replicate (nrows df) (TextCell ''None'')
      | Some vs \<Rightarrow> vs)"

definition select_distinct_batch_id :: "dataframe list \<Rightarrow> cell list" where
  "select_distinct_batch_id tbl = remdups (concat (map frame_batch_ids tbl))"

text \<open>
  \<open>n in s\<close> for an integer \<open>n\<close> and a Python set \<open>s\<close> of stored values: membership is by
  equality, and \<open>cell_int\<close> gives the integer a value is equal to, if there is one.
\<close>

fun cell_int :: "cell \<Rightarrow> int option" where
  "cell_int (IntCell n) = Some n"
| "cell_int (NumCell n s) = Some n"
| "cell_int (TextCell s) = None"

definition py_in :: "int \<Rightarrow> cell set \<Rightarrow> bool" where
  "py_in n s = (Some n \<in> cell_int ` s)"

text \<open>
  \<open>write_pandas(conn, df, table_name=TABLE_NAME)\<close>. It needs the connection; it
  serialises the frame to Parquet, which refuses a frame with a repeated column label
  (\<open>ValueError\<close>); the store may refuse the frame. Otherwise the frame is appended to
  the table in one operation. A frame with no rows adds nothing.
\<close>

definition write_pandas :: "env \<Rightarrow> dataframe \<Rightarrow> world \<Rightarrow> (exn + unit) \<times> world" where
  "write_pandas env df w =
     (let w' = w\<lparr>store_ops := Suc (store_ops w)\<rparr>
      in if \<not> conn_up env (store_ops w) then (Inl (DatabaseError ''connection lost''), w')
         else if \<not> distinct (map fst (cols df)) then (Inl (ValueError ''Duplicate column names found''), w')
         else case write_fault env df of
                Some e \<Rightarrow> (Inl e, w')
              | None \<Rightarrow> (Inr (), w'\<lparr>table := table w' @ (if nrows df = 0 then [] else [df])\<rparr>))"

section \<open>The loader: \<open>loader.py\<close>\<close>

definition get_loaded_batches :: "env \<Rightarrow> world \<Rightarrow> (exn + cell set) \<times> world" where
  "get_loaded_batches env w =
     (let w' = w\<lparr>store_ops := Suc (store_ops w)\<rparr>
      in if \<not> conn_up env (store_ops w) then (Inl (DatabaseError ''connection lost''), w')
         else case query_fault env of
                Some e \<Rightarrow> (Inl e, w')
              | None \<Rightarrow> (Inr (set (select_distinct_batch_id (table w))), w'))"

definition get_batch_ids :: "env \<Rightarrow> exn + string list" where
  "get_batch_ids env =
     (case http_get env BATCH_LIST_URL of
        Inl e \<Rightarrow> Inl e
      | Inr r \<Rightarrow>
          (case raise_for_status r of
             Inl e \<Rightarrow> Inl e
           | Inr _ \<Rightarrow>
               (case read_csv env (body r) of
                  Inl e \<Rightarrow> Inl e
                | Inr df \<Rightarrow>
                    (case getitem df ''batch_id'' of
                       Inl e \<Rightarrow> Inl e
                     | Inr vs \<Rightarrow> Inr (map py_str vs)))))"

text \<open>
  The body of the \<open>try\<close> block of \<open>ingest_batch\<close>: \<open>Some e\<close> when a statement raises \<open>e\<close>,
  with the world as it is at that moment.
\<close>

definition ingest_batch_try :: "env \<Rightarrow> string \<Rightarrow> world \<Rightarrow> exn option \<times> world" where
  "ingest_batch_try env batch_id w =
     (case http_get env (batch_data_url batch_id) of
        Inl e \<Rightarrow> (Some e, w)
      | Inr r \<Rightarrow>
          (case raise_for_status r of
             Inl e \<Rightarrow> (Some e, w)
           | Inr _ \<Rightarrow>
               (case read_csv env (body r) of
                  Inl e \<Rightarrow> (Some e, w)
                | Inr df0 \<Rightarrow>
                    (let df1 = df0\<lparr>cols := map (\<lambda>(c, vs). (py_upper (py_strip c), vs)) (cols df0)\<rparr>
                     in case py_int batch_id of
                          Inl e \<Rightarrow> (Some e, w)
                        | Inr n \<Rightarrow>
                            (let df = setitem df1 ''BATCH_ID'' (IntCell n)
                             in case getitem_list df [''BATCH_ID'', ''ORDER_ID'', ''AMOUNT''] of
                                  Inl e \<Rightarrow> (Some e, w)
                                | Inr sel \<Rightarrow>
                                    (case write_pandas env sel w of
                                       (Inl e, w') \<Rightarrow> (Some e, w')
                                     | (Inr _, w') \<Rightarrow>
                                         (None, py_print (Loaded batch_id (nrows df)) w')))))))"

text \<open>
  \<open>ingest_batch\<close>: the \<open>try\<close> block, and the handler that prints the error. The function
  has no \<open>return\<close> statement, so the caller gets \<open>None\<close> either way.
\<close>

definition ingest_batch :: "env \<Rightarrow> string \<Rightarrow> world \<Rightarrow> pyval \<times> world" where
  "ingest_batch env batch_id w =
     (case ingest_batch_try env batch_id w of
        (Some e, w') \<Rightarrow> (PyNone, py_print (ErrorLoading batch_id e) w')
      | (None, w') \<Rightarrow> (PyNone, w'))"

text \<open>
  The \<open>for\<close> loop of the main block: \<open>Some e\<close> when \<open>e\<close> leaves the loop uncaught.
\<close>

fun for_loop :: "env \<Rightarrow> cell set \<Rightarrow> string list \<Rightarrow> world \<Rightarrow> exn option \<times> world" where
  "for_loop env loaded_batches [] w = (None, w)"
| "for_loop env loaded_batches (batch_id # rest) w =
     (case py_int batch_id of
        Inl e \<Rightarrow> (Some e, w)
      | Inr n \<Rightarrow>
          if py_in n loaded_batches
          then for_loop env loaded_batches rest (py_print (Skipping batch_id) w)
          else for_loop env loaded_batches rest
                 (snd (ingest_batch env batch_id (py_print (Ingesting batch_id) w))))"

definition main :: "env \<Rightarrow> world \<Rightarrow> exn option \<times> world" where
  "main env w =
     (case get_loaded_batches env w of
        (Inl e, w1) \<Rightarrow> (Some e, w1)
      | (Inr loaded_batches, w1) \<Rightarrow>
          (let w2 = py_print (AlreadyLoaded loaded_batches) w1
           in case get_batch_ids env of
                Inl e \<Rightarrow> (Some e, w2)
              | Inr ids \<Rightarrow> for_loop env loaded_batches ids w2))"

section \<open>The batch source: \<open>batch_api/app.py\<close>\<close>

text \<open>
  The files of the server, by path. \<open>os.path.join\<close> of two components; \<open>isfile\<close>.
\<close>

definition DATA_DIR :: string where
  "DATA_DIR = ''data''"

definition path_join :: "string \<Rightarrow> string \<Rightarrow> string" where
  "path_join a b =
     (if b \<noteq> [] \<and> hd b = CHR ''/'' then b
      else if a = [] \<or> last a = CHR ''/'' then a @ b
      else a @ ''/'' @ b)"

definition isfile :: "(string \<rightharpoonup> string) \<Rightarrow> string \<Rightarrow> bool" where
  "isfile fs p = (fs p \<noteq> None)"

text \<open>
  The handler of \<open>/api/batch_data/<batch_id>\<close>: \<open>abort(404, ...)\<close> answers with status
  404, \<open>send_file\<close> with status 200 and the file's content. Of the error page only the
  description is kept as the body; the loader never reads the body of such an answer.
\<close>

definition get_batch_data :: "(string \<rightharpoonup> string) \<Rightarrow> string \<Rightarrow> response" where
  "get_batch_data fs batch_id =
     (let file_path = path_join DATA_DIR (batch_id @ ''.csv'')
      in if \<not> isfile fs file_path
         then \<lparr>status_code = 404, body = ''Batch data not found''\<rparr>
         else \<lparr>status_code = 200, body = (case fs file_path of Some content \<Rightarrow> content | None \<Rightarrow> [])\<rparr>)"

section \<open>Notions used to state the properties\<close>

text \<open>Whether \<open>int\<close> accepts an identifier, and the integer it gives.\<close>

definition is_int_id :: "string \<Rightarrow> bool" where
  "is_int_id b = (case py_int b of Inl e \<Rightarrow> False | Inr n \<Rightarrow> True)"

definition the_int :: "string \<Rightarrow> int" where
  "the_int b = (case py_int b of Inl e \<Rightarrow> 0 | Inr n \<Rightarrow> n)"

text \<open>The Loaded-Batch Set of a table, and the number of rows of a table.\<close>

definition loaded_of :: "dataframe list \<Rightarrow> cell set" where
  "loaded_of tbl = set (select_distinct_batch_id tbl)"

definition row_count :: "dataframe list \<Rightarrow> nat" where
  "row_count tbl = sum_list (map nrows tbl)"

text \<open>
  The frame that \<open>ingest_batch\<close> hands to \<open>write_pandas\<close> for an identifier: the
  statements of the \<open>try\<close> block before the write, which read no state.
\<close>

definition batch_frame :: "env \<Rightarrow> string \<Rightarrow> exn + dataframe" where
  "batch_frame env batch_id =
     (case http_get env (batch_data_url batch_id) of
        Inl e \<Rightarrow> Inl e
      | Inr r \<Rightarrow>
          (case raise_for_status r of
             Inl e \<Rightarrow> Inl e
           | Inr _ \<Rightarrow>
               (case read_csv env (body r) of
                  Inl e \<Rightarrow> Inl e
                | Inr df0 \<Rightarrow>
                    (case py_int batch_id of
                       Inl e \<Rightarrow> Inl e
                     | Inr n \<Rightarrow>
                         getitem_list
                           (setitem (df0\<lparr>cols := map (\<lambda>(c, vs). (py_upper (py_strip c), vs)) (cols df0)\<rparr>)
                              ''BATCH_ID'' (IntCell n))
                           [''BATCH_ID'', ''ORDER_ID'', ''AMOUNT'']))))"

text \<open>
  What ingesting an identifier appends to the table while the connection is up: the
  frame, when the write accepts it and it has rows.
\<close>

definition written :: "env \<Rightarrow> string \<Rightarrow> dataframe list" where
  "written env batch_id =
     (case batch_frame env batch_id of
        Inl e \<Rightarrow> []
      | Inr sel \<Rightarrow>
          if distinct (map fst (cols sel)) \<and> write_fault env sel = None \<and> nrows sel \<noteq> 0
          then [sel] else [])"

text \<open>
  The identifiers the loop hands to \<open>ingest_batch\<close>, for a loaded set and a discovery
  list: those not in the loaded set, up to the first one that \<open>int\<close> refuses.
\<close>

fun ingested_ids :: "cell set \<Rightarrow> string list \<Rightarrow> string list" where
  "ingested_ids L [] = []"
| "ingested_ids L (b # bs) =
     (case py_int b of
        Inl e \<Rightarrow> []
      | Inr n \<Rightarrow> if py_in n L then ingested_ids L bs else b # ingested_ids L bs)"

text \<open>
  What the loop has to do with one identifier that \<open>int\<close> accepts: print that it
  skips it when its integer is in the loaded set, and nothing more; otherwise print
  that it ingests it and call \<open>ingest_batch\<close>.
\<close>

definition skip_or_ingest :: "env \<Rightarrow> cell set \<Rightarrow> world \<Rightarrow> string \<Rightarrow> world" where
  "skip_or_ingest env L w b =
     (if py_in (the_int b) L then py_print (Skipping b) w
      else snd (ingest_batch env b (py_print (Ingesting b) w)))"

text \<open>
  Readings of the output: the skip-or-ingest decisions, the identifiers
  \<open>ingest_batch\<close> was called with, and the outcomes \<open>ingest_batch\<close> printed.
\<close>

fun decisions :: "event list \<Rightarrow> event list" where
  "decisions [] = []"
| "decisions (Skipping b # evs) = Skipping b # decisions evs"
| "decisions (Ingesting b # evs) = Ingesting b # decisions evs"
| "decisions (ev # evs) = decisions evs"


fun outcomes :: "event list \<Rightarrow> event list" where
  "outcomes [] = []"
| "outcomes (Loaded b n # evs) = Loaded b n # outcomes evs"
| "outcomes (ErrorLoading b e # evs) = ErrorLoading b e # outcomes evs"
| "outcomes (ev # evs) = outcomes evs"

fun outcome_id :: "event \<Rightarrow> string" where
  "outcome_id (Loaded b n) = b"
| "outcome_id (ErrorLoading b e) = b"
| "outcome_id ev = []"



text \<open>
  What a whole run appends to a table while the connection is up: nothing when the
  loaded set cannot be read or the catalog cannot be discovered, and otherwise what the
  ingested identifiers write.
\<close>

definition run_delta :: "env \<Rightarrow> dataframe list \<Rightarrow> dataframe list" where
  "run_delta env tbl =
     (case query_fault env of
        Some e \<Rightarrow> []
      | None \<Rightarrow>
          (case get_batch_ids env of
             Inl e \<Rightarrow> []
           | Inr ids \<Rightarrow> concat (map (written env) (ingested_ids (loaded_of tbl) ids))))"

fun is_error :: "event \<Rightarrow> bool" where
  "is_error (ErrorLoading b e) = True"
| "is_error ev = False"

section \<open>Example data\<close>

text \<open>
  A batch source that lists the given identifiers and serves the same two orders for
  every batch, under the column labels \<open>" order_id "\<close> and \<open>"Amount"\<close>, except those
  batches for which \<open>failing\<close> gives a status; a store that accepts every frame.
\<close>

definition csv_text :: "string list \<Rightarrow> string" where
  "csv_text ls = concat (map (\<lambda>l. l @ [CHR 0x0A]) ls)"

definition orders_csv :: string where
  "orders_csv = csv_text ['' order_id ,Amount'', ''101,9.5'', ''102,20.0'']"

definition orders_frame :: dataframe where
  "orders_frame =
     \<lparr>nrows = 2,
      cols = [('' order_id '', [IntCell 101, IntCell 102]),
              (''Amount'', [TextCell ''9.5'', NumCell 20 ''20.0''])]\<rparr>"

definition batch_list_csv :: "cell list \<Rightarrow> string" where
  "batch_list_csv ids = csv_text (''batch_id'' # map py_str ids)"

definition batch_list_frame :: "cell list \<Rightarrow> dataframe" where
  "batch_list_frame ids = \<lparr>nrows = length ids, cols = [(''batch_id'', ids)]\<rparr>"

definition example_env :: "cell list \<Rightarrow> (string \<rightharpoonup> nat) \<Rightarrow> env" where
  "example_env ids failing =
     \<lparr>http_get = (\<lambda>u. if u = BATCH_LIST_URL then Inr \<lparr>status_code = 200, body = batch_list_csv ids\<rparr>
                      else case failing u of
                             Some st \<Rightarrow> Inr \<lparr>status_code = st, body = []\<rparr>
                           | None \<Rightarrow> Inr \<lparr>status_code = 200, body = orders_csv\<rparr>),
      read_csv = (\<lambda>t. if t = orders_csv then Inr orders_frame
                      else if t = batch_list_csv ids then Inr (batch_list_frame ids)
                      else Inl (ParserError t)),
      conn_up = (\<lambda>k. True),
      query_fault = None,
      write_fault = (\<lambda>df. None)\<rparr>"

text \<open>
  The same source, with the batch data served by the handler of \<open>app.py\<close> from the files
  of the server: every URL but that of the list is taken as a batch-data URL.
\<close>

definition example_files :: "string \<rightharpoonup> string" where
  "example_files = [''data/1.csv'' \<mapsto> orders_csv]"

definition served_env :: "(string \<rightharpoonup> string) \<Rightarrow> cell list \<Rightarrow> env" where
  "served_env fs ids =
     (example_env ids Map.empty)
       \<lparr>http_get := (\<lambda>u. if u = BATCH_LIST_URL then Inr \<lparr>status_code = 200, body = batch_list_csv ids\<rparr>
                          else Inr (get_batch_data fs (drop (length (batch_data_url [])) u)))\<rparr>"

text \<open>The frame that ingesting batch \<open>n\<close> of the example source appends.\<close>

definition stored_frame :: "int \<Rightarrow> dataframe" where
  "stored_frame n =
     \<lparr>nrows = 2,
      cols = [(''BATCH_ID'', [IntCell n, IntCell n]),
              (''ORDER_ID'', [IntCell 101, IntCell 102]),
              (''AMOUNT'', [TextCell ''9.5'', NumCell 20 ''20.0''])]\<rparr>"

definition empty_world :: world where
  "empty_world = \<lparr>table = [], store_ops = 0, stdout = []\<rparr>"

section \<open>Lemmas\<close>

subsection \<open>Readings of the output\<close>

lemma decisions_append: "decisions (xs @ ys) = decisions xs @ decisions ys"
  by (induction xs rule: decisions.induct) auto


lemma outcomes_append: "outcomes (xs @ ys) = outcomes xs @ outcomes ys"
  by (induction xs rule: outcomes.induct) auto

subsection \<open>One call of \<open>ingest_batch\<close>\<close>

lemma nrows_setitem: "nrows (setitem df name v) = nrows df"
  by (simp add: setitem_def)

lemma nrows_getitem_list: "getitem_list df names = Inr sel \<Longrightarrow> nrows sel = nrows df"
  by (auto simp: getitem_list_def Let_def split: if_splits)

lemma ingest_batch_try_frame:
  "ingest_batch_try env b w =
     (case batch_frame env b of
        Inl e \<Rightarrow> (Some e, w)
      | Inr sel \<Rightarrow>
          (case write_pandas env sel w of
             (Inl e, w') \<Rightarrow> (Some e, w')
           | (Inr u, w') \<Rightarrow> (None, py_print (Loaded b (nrows sel)) w')))"
  by (auto simp: ingest_batch_try_def batch_frame_def Let_def nrows_setitem
      dest: nrows_getitem_list split: sum.splits prod.splits)

lemma ingest_batch_fst: "fst (ingest_batch env b w) = PyNone"
  by (simp add: ingest_batch_def split: prod.splits option.splits)

lemma ingest_batch_caught:
  "ingest_batch_try env b w = (Some e, w1) \<Longrightarrow>
   ingest_batch env b w = (PyNone, py_print (ErrorLoading b e) w1) \<and> table w1 = table w"
  by (auto simp: ingest_batch_def ingest_batch_try_frame write_pandas_def Let_def
      split: sum.splits prod.splits option.splits if_splits)

lemma ingest_batch_table_up:
  "conn_up env (store_ops w) \<Longrightarrow> table (snd (ingest_batch env b w)) = table w @ written env b"
  by (auto simp: ingest_batch_def ingest_batch_try_frame written_def py_print_def
      write_pandas_def Let_def split: sum.splits prod.splits option.splits if_splits)

lemma ingest_batch_try_stdout:
  "ingest_batch_try env b w = (r, w') \<Longrightarrow>
   stdout w' = stdout w @ (case r of None \<Rightarrow> [Loaded b (nrows (projr (batch_frame env b)))] | Some e \<Rightarrow> [])"
  by (auto simp: ingest_batch_try_frame py_print_def write_pandas_def Let_def
      split: sum.splits prod.splits option.splits if_splits)

lemma ingest_batch_stdout:
  "\<exists>ev. stdout (snd (ingest_batch env b w)) = stdout w @ [ev] \<and>
        ((\<exists>n. ev = Loaded b n) \<or> (\<exists>e. ev = ErrorLoading b e))"
proof (cases "ingest_batch_try env b w")
  case (Pair r w')
  from ingest_batch_try_stdout [OF Pair] show ?thesis
    by (cases r) (auto simp: ingest_batch_def Pair py_print_def)
qed

lemma ingest_batch_decisions:
  "decisions (stdout (snd (ingest_batch env b w))) = decisions (stdout w)"
  using ingest_batch_stdout [of env b w] by (auto simp: decisions_append)


lemma ingest_batch_outcomes:
  "map outcome_id (outcomes (stdout (snd (ingest_batch env b w)))) =
   map outcome_id (outcomes (stdout w)) @ [b]"
  using ingest_batch_stdout [of env b w] by (auto simp: outcomes_append)

subsection \<open>The loop\<close>

lemma for_loop_completes:
  "list_all is_int_id ids \<Longrightarrow> fst (for_loop env L ids w) = None"
  by (induction ids arbitrary: w) (auto simp: is_int_id_def split: sum.splits)




lemma for_loop_decisions:
  "list_all is_int_id ids \<Longrightarrow>
   decisions (stdout (snd (for_loop env L ids w))) =
     decisions (stdout w) @ map (\<lambda>b. if py_in (the_int b) L then Skipping b else Ingesting b) ids"
  by (induction ids arbitrary: w)
     (auto simp: is_int_id_def the_int_def py_print_def decisions_append ingest_batch_decisions
           split: sum.splits)


lemma for_loop_outcomes:
  "list_all is_int_id ids \<Longrightarrow>
   map outcome_id (outcomes (stdout (snd (for_loop env L ids w)))) =
     map outcome_id (outcomes (stdout w)) @ filter (\<lambda>b. \<not> py_in (the_int b) L) ids"
  by (induction ids arbitrary: w)
     (auto simp: is_int_id_def the_int_def py_print_def outcomes_append ingest_batch_outcomes
           split: sum.splits)

lemma ingested_ids_all_int:
  "list_all is_int_id ids \<Longrightarrow> ingested_ids L ids = filter (\<lambda>b. \<not> py_in (the_int b) L) ids"
  by (induction ids) (auto simp: is_int_id_def the_int_def split: sum.splits)

lemma for_loop_fold:
  "list_all is_int_id ids \<Longrightarrow>
   for_loop env L ids w = (None, foldl (skip_or_ingest env L) w ids)"
  by (induction ids arbitrary: w)
     (auto simp: is_int_id_def the_int_def skip_or_ingest_def split: sum.splits)

lemma for_loop_table_up:
  "\<forall>k. conn_up env k \<Longrightarrow>
   table (snd (for_loop env L ids w)) = table w @ concat (map (written env) (ingested_ids L ids))"
  by (induction ids arbitrary: w)
     (auto simp: py_print_def ingest_batch_table_up split: sum.splits)

subsection \<open>The whole run\<close>

lemma get_loaded_batches_ok:
  "conn_up env (store_ops w) \<Longrightarrow> query_fault env = None \<Longrightarrow>
   get_loaded_batches env w = (Inr (loaded_of (table w)), w\<lparr>store_ops := Suc (store_ops w)\<rparr>)"
  by (simp add: get_loaded_batches_def loaded_of_def Let_def)

lemma main_loop:
  "conn_up env (store_ops w) \<Longrightarrow> query_fault env = None \<Longrightarrow> get_batch_ids env = Inr ids \<Longrightarrow>
   main env w =
     for_loop env (loaded_of (table w)) ids
       (py_print (AlreadyLoaded (loaded_of (table w))) (w\<lparr>store_ops := Suc (store_ops w)\<rparr>))"
  by (simp add: main_def get_loaded_batches_ok Let_def)

subsection \<open>Evaluation of the examples\<close>

lemmas string_defs = py_int_def py_strip_def is_space_def is_int_space_def is_digit_def
  digit_val_def MAX_STR_DIGITS_def

lemmas loader_defs = ingest_batch_def ingest_batch_try_def write_pandas_def get_loaded_batches_def
  get_batch_ids_def main_def py_print_def raise_for_status_def getitem_def setitem_def
  getitem_list_def select_distinct_batch_id_def frame_batch_ids_def py_in_def Let_def

lemmas example_defs = example_env_def orders_csv_def orders_frame_def batch_list_csv_def
  batch_list_frame_def stored_frame_def empty_world_def BATCH_LIST_URL_def batch_data_url_def
  csv_text_def

lemma norm_order_id: "py_upper (py_strip '' order_id '') = ''ORDER_ID''"
  by code_simp

lemma norm_amount: "py_upper (py_strip ''Amount'') = ''AMOUNT''"
  by code_simp

lemma py_str_examples:
  "py_str_int 1 = ''1''" "py_str_int 2 = ''2''" "py_str_int 3 = ''3''"
  "py_str_int 5 = ''5''" "py_str_int 7 = ''7''" "py_str_int 10 = ''10''" "py_str_int 11 = ''11''"
  "py_str_int 12 = ''12''"
  by code_simp+

lemma py_int_examples:
  "py_int ''1'' = Inr 1" "py_int ''2'' = Inr 2" "py_int ''3'' = Inr 3" "py_int ''5'' = Inr 5"
  "py_int ''7'' = Inr 7" "py_int ''10'' = Inr 10" "py_int ''11'' = Inr 11" "py_int ''12'' = Inr 12"
  "py_int ''x7'' = Inl (ValueError ''x7'')" "py_int ''1.0'' = Inl (ValueError ''1.0'')"
  by (simp_all add: string_defs)

lemmas example_simps = loader_defs example_defs norm_order_id norm_amount py_str_examples
  py_int_examples numeral_2_eq_2 is_int_id_def the_int_def loaded_of_def

subsection \<open>The shape of the frame that is written\<close>

lemma same_label_single:
  assumes "distinct (map fst ys)" and "\<forall>z\<in>set ys. fst z = k" and "ys \<noteq> []"
  shows "\<exists>v. ys = [(k, v)]"
proof -
  from assms(3) obtain y ys' where ys: "ys = y # ys'" by (cases ys) auto
  have "ys' = []"
  proof (rule ccontr)
    assume "ys' \<noteq> []"
    then obtain z zs where "ys' = z # zs" by (cases ys') auto
    with ys assms(1,2) show False by simp
  qed
  with ys assms(2) show ?thesis by (cases y) simp
qed

lemma label_filter: "filter (\<lambda>(c, vs). c = n) xs = filter (\<lambda>z. fst z = n) xs"
  by (induction xs) auto

lemma filter_label_single:
  assumes "distinct (map fst (filter (\<lambda>(c, vs). c = k) xs))" and "k \<in> set (map fst xs)"
  shows "\<exists>v. filter (\<lambda>(c, vs). c = k) xs = [(k, v)] \<and> (k, v) \<in> set xs"
proof -
  let ?ys = "filter (\<lambda>z. fst z = k) xs"
  from assms(1) have d: "distinct (map fst ?ys)" by (simp only: label_filter)
  have a: "\<forall>z\<in>set ?ys. fst z = k" by simp
  from assms(2) have n: "?ys \<noteq> []" by (auto simp: filter_empty_conv)
  from same_label_single [OF d a n] obtain v where v: "?ys = [(k, v)]" by blast
  then have "(k, v) \<in> set ?ys" by simp
  then have "(k, v) \<in> set xs" by (simp del: v)
  with v show ?thesis by (simp only: label_filter) simp
qed

lemma getitem_list_cols:
  "getitem_list df names = Inr sel \<Longrightarrow>
   cols sel = concat (map (\<lambda>n. filter (\<lambda>(c, vs). c = n) (cols df)) names)
   \<and> set names \<subseteq> set (map fst (cols df)) \<and> nrows sel = nrows df"
  by (auto simp: getitem_list_def Let_def filter_empty_conv split: if_splits)



lemma setitem_same: "(k, vs) \<in> set (cols (setitem df k v)) \<Longrightarrow> vs = replicate (nrows df) v"
  by (force simp: setitem_def split: if_splits)

lemma setitem_other: "c \<noteq> k \<Longrightarrow> (c, vs) \<in> set (cols (setitem df k v)) \<Longrightarrow> (c, vs) \<in> set (cols df)"
  by (auto simp: setitem_def split: if_splits)


lemma frame_shape:
  assumes "batch_frame env b = Inr sel" and "distinct (map fst (cols sel))"
  shows "\<exists>r df0 n co vo ca va.
           http_get env (batch_data_url b) = Inr r \<and> raise_for_status r = Inr ()
         \<and> read_csv env (body r) = Inr df0 \<and> py_int b = Inr n
         \<and> (co, vo) \<in> set (cols df0) \<and> py_upper (py_strip co) = ''ORDER_ID''
         \<and> (ca, va) \<in> set (cols df0) \<and> py_upper (py_strip ca) = ''AMOUNT''
         \<and> sel = \<lparr>nrows = nrows df0,
                   cols = [(''BATCH_ID'', replicate (nrows df0) (IntCell n)),
                           (''ORDER_ID'', vo), (''AMOUNT'', va)]\<rparr>"
proof -
  from assms(1) obtain r df0 n where
    r: "http_get env (batch_data_url b) = Inr r" "raise_for_status r = Inr ()"
    and df0: "read_csv env (body r) = Inr df0" and n: "py_int b = Inr n"
    and sel: "getitem_list
                (setitem (df0\<lparr>cols := map (\<lambda>(c, vs). (py_upper (py_strip c), vs)) (cols df0)\<rparr>)
                   ''BATCH_ID'' (IntCell n))
                [''BATCH_ID'', ''ORDER_ID'', ''AMOUNT''] = Inr sel"
    by (auto simp: batch_frame_def split: sum.splits)
  define df1 where "df1 = df0\<lparr>cols := map (\<lambda>(c, vs). (py_upper (py_strip c), vs)) (cols df0)\<rparr>"
  define df where "df = setitem df1 ''BATCH_ID'' (IntCell n)"
  have nr: "nrows df1 = nrows df0" by (simp add: df1_def)
  from sel have c: "cols sel =
      filter (\<lambda>(c, vs). c = ''BATCH_ID'') (cols df) @ filter (\<lambda>(c, vs). c = ''ORDER_ID'') (cols df)
      @ filter (\<lambda>(c, vs). c = ''AMOUNT'') (cols df)"
    and lab: "''BATCH_ID'' \<in> set (map fst (cols df))" "''ORDER_ID'' \<in> set (map fst (cols df))"
      "''AMOUNT'' \<in> set (map fst (cols df))"
    and nsel: "nrows sel = nrows df"
    using getitem_list_cols [of df "[''BATCH_ID'', ''ORDER_ID'', ''AMOUNT'']" sel]
    by (simp_all add: df_def df1_def)
  from assms(2) c have d:
    "distinct (map fst (filter (\<lambda>(c, vs). c = ''BATCH_ID'') (cols df)))"
    "distinct (map fst (filter (\<lambda>(c, vs). c = ''ORDER_ID'') (cols df)))"
    "distinct (map fst (filter (\<lambda>(c, vs). c = ''AMOUNT'') (cols df)))"
    by simp_all
  from filter_label_single [OF d(1) lab(1)] obtain vb where
    vb: "filter (\<lambda>(c, vs). c = ''BATCH_ID'') (cols df) = [(''BATCH_ID'', vb)]" "(''BATCH_ID'', vb) \<in> set (cols df)"
    by blast
  from filter_label_single [OF d(2) lab(2)] obtain vo where
    vo: "filter (\<lambda>(c, vs). c = ''ORDER_ID'') (cols df) = [(''ORDER_ID'', vo)]" "(''ORDER_ID'', vo) \<in> set (cols df)"
    by blast
  from filter_label_single [OF d(3) lab(3)] obtain va where
    va: "filter (\<lambda>(c, vs). c = ''AMOUNT'') (cols df) = [(''AMOUNT'', va)]" "(''AMOUNT'', va) \<in> set (cols df)"
    by blast
  from vb(2) have vb_eq: "vb = replicate (nrows df0) (IntCell n)"
    using setitem_same [of "''BATCH_ID''" vb df1 "IntCell n"] by (simp add: df_def nr)
  from vo(2) have "(''ORDER_ID'', vo) \<in> set (cols df1)"
    using setitem_other [of "''ORDER_ID''" "''BATCH_ID''" vo df1 "IntCell n"] by (simp add: df_def)
  then obtain co where co: "(co, vo) \<in> set (cols df0)" "py_upper (py_strip co) = ''ORDER_ID''"
    by (auto simp: df1_def)
  from va(2) have "(''AMOUNT'', va) \<in> set (cols df1)"
    using setitem_other [of "''AMOUNT''" "''BATCH_ID''" va df1 "IntCell n"] by (simp add: df_def)
  then obtain ca where ca: "(ca, va) \<in> set (cols df0)" "py_upper (py_strip ca) = ''AMOUNT''"
    by (auto simp: df1_def)
  have "nrows sel = nrows df0"
    using nsel by (simp add: df_def nrows_setitem nr)
  with c vb(1) vo(1) va(1) vb_eq
  have "sel = \<lparr>nrows = nrows df0,
               cols = [(''BATCH_ID'', replicate (nrows df0) (IntCell n)),
                       (''ORDER_ID'', vo), (''AMOUNT'', va)]\<rparr>"
    by simp
  with r df0 n co ca show ?thesis by blast
qed

lemma ingest_success:
  assumes "ingest_batch_try env b w = (None, w')"
  shows "\<exists>sel. batch_frame env b = Inr sel \<and> distinct (map fst (cols sel))
             \<and> write_fault env sel = None \<and> conn_up env (store_ops w)
             \<and> w' = w\<lparr>store_ops := Suc (store_ops w),
                       table := table w @ (if nrows sel = 0 then [] else [sel]),
                       stdout := stdout w @ [Loaded b (nrows sel)]\<rparr>"
  using assms
  by (auto simp: ingest_batch_try_frame write_pandas_def py_print_def Let_def
      split: sum.splits prod.splits option.splits if_splits)


subsection \<open>Failures of one call, by cause\<close>


lemma ingest_batch_status_fail:
  "http_get env (batch_data_url b) = Inr r \<Longrightarrow> 400 \<le> status_code r \<Longrightarrow> status_code r < 600 \<Longrightarrow>
   ingest_batch env b w = (PyNone, py_print (ErrorLoading b (HTTPError (status_code r))) w)"
  by (simp add: ingest_batch_def ingest_batch_try_def raise_for_status_def)


lemma ingest_batch_write_down:
  "batch_frame env b = Inr sel \<Longrightarrow> \<not> conn_up env (store_ops w) \<Longrightarrow>
   ingest_batch env b w =
     (PyNone, py_print (ErrorLoading b (DatabaseError ''connection lost''))
                (w\<lparr>store_ops := Suc (store_ops w)\<rparr>))"
  by (simp add: ingest_batch_def ingest_batch_try_frame write_pandas_def Let_def)

lemma ingest_batch_down:
  "\<not> conn_up env (store_ops w) \<Longrightarrow>
   table (snd (ingest_batch env b w)) = table w
   \<and> (\<exists>e. stdout (snd (ingest_batch env b w)) = stdout w @ [ErrorLoading b e])"
  by (auto simp: ingest_batch_def ingest_batch_try_frame write_pandas_def py_print_def Let_def
      split: sum.splits)

lemma ingest_batch_ops:
  "store_ops w \<le> store_ops (snd (ingest_batch env b w))"
  by (auto simp: ingest_batch_def ingest_batch_try_frame write_pandas_def py_print_def Let_def
      split: sum.splits prod.splits option.splits if_splits)

lemma for_loop_down:
  "list_all is_int_id ids \<Longrightarrow> \<forall>k\<ge>store_ops w. \<not> conn_up env k \<Longrightarrow>
   table (snd (for_loop env L ids w)) = table w
   \<and> (list_all is_error (outcomes (stdout w)) \<longrightarrow>
        list_all is_error (outcomes (stdout (snd (for_loop env L ids w)))))"
proof (induction ids arbitrary: w)
  case Nil
  then show ?case by simp
next
  case (Cons b ids)
  from Cons.prems(1) have "is_int_id b" and rest: "list_all is_int_id ids"
    by simp_all
  then obtain n where n: "py_int b = Inr n"
    by (auto simp: is_int_id_def split: sum.splits)
  show ?case
  proof (cases "py_in n L")
    case True
    have "\<forall>k\<ge>store_ops (py_print (Skipping b) w). \<not> conn_up env k"
      using Cons.prems(2) by (simp add: py_print_def)
    from Cons.IH [OF rest this] True n show ?thesis
      by (simp add: py_print_def outcomes_append)
  next
    case False
    let ?w0 = "py_print (Ingesting b) w"
    let ?w1 = "snd (ingest_batch env b ?w0)"
    have ops0: "store_ops ?w0 = store_ops w" by (simp add: py_print_def)
    with Cons.prems(2) have down: "\<not> conn_up env (store_ops ?w0)" by simp
    from ingest_batch_down [OF down, of b] obtain e where
      t: "table ?w1 = table w" and o: "stdout ?w1 = stdout w @ [Ingesting b, ErrorLoading b e]"
      by (auto simp: py_print_def)
    have "store_ops w \<le> store_ops ?w1"
      using ingest_batch_ops [of ?w0 env b] ops0 by simp
    with Cons.prems(2) have "\<forall>k\<ge>store_ops ?w1. \<not> conn_up env k" by auto
    from Cons.IH [OF rest this] False n t o show ?thesis
      by (simp add: outcomes_append)
  qed
qed

subsection \<open>A second run\<close>

lemma loaded_of_append: "loaded_of (xs @ ys) = loaded_of xs \<union> loaded_of ys"
  by (simp add: loaded_of_def select_distinct_batch_id_def)

lemma py_in_union: "py_in n (A \<union> B) \<longleftrightarrow> py_in n A \<or> py_in n B"
  by (auto simp: py_in_def)

lemma written_frame:
  assumes "sel \<in> set (written env b)"
  shows "loaded_of [sel] = {IntCell (the_int b)} \<and> written env b = [sel] \<and> is_int_id b"
proof -
  from assms have bf: "batch_frame env b = Inr sel" and d: "distinct (map fst (cols sel))"
    and nz: "nrows sel \<noteq> 0" and wr: "written env b = [sel]"
    by (auto simp: written_def split: sum.splits if_splits)
  from frame_shape [OF bf d] obtain n vo va where n: "py_int b = Inr n"
    and sel: "sel = \<lparr>nrows = nrows sel,
                     cols = [(''BATCH_ID'', replicate (nrows sel) (IntCell n)),
                             (''ORDER_ID'', vo), (''AMOUNT'', va)]\<rparr>"
    by auto
  have "frame_batch_ids sel = replicate (nrows sel) (IntCell n)"
    by (subst sel) (simp add: frame_batch_ids_def)
  with nz have "loaded_of [sel] = {IntCell n}"
    by (simp add: loaded_of_def select_distinct_batch_id_def)
  with n wr show ?thesis by (simp add: the_int_def is_int_id_def)
qed

lemma py_in_written:
  "py_in n (loaded_of (written env b)) \<longleftrightarrow> written env b \<noteq> [] \<and> n = the_int b"
proof (cases "written env b")
  case Nil
  then show ?thesis by (simp add: loaded_of_def select_distinct_batch_id_def py_in_def)
next
  case (Cons sel rest)
  then have "sel \<in> set (written env b)" by simp
  from written_frame [OF this] Cons show ?thesis
    by (auto simp: py_in_def)
qed

lemma py_in_written_list:
  "py_in n (loaded_of (concat (map (written env) bs))) \<longleftrightarrow>
     (\<exists>b\<in>set bs. written env b \<noteq> [] \<and> the_int b = n)"
  by (induction bs) (auto simp: loaded_of_append py_in_union py_in_written,
      simp_all add: loaded_of_def select_distinct_batch_id_def py_in_def)

lemma ingested_ids_set:
  "set (ingested_ids L ids) \<subseteq> {b \<in> set ids. \<not> py_in (the_int b) L}"
  by (induction ids) (auto simp: the_int_def split: sum.splits if_splits)

lemma ingested_ids_mono:
  "(\<And>n. py_in n L \<Longrightarrow> py_in n L') \<Longrightarrow> set (ingested_ids L' ids) \<subseteq> set (ingested_ids L ids)"
  by (induction ids) (auto split: sum.splits if_splits)

lemma second_pass_writes_nothing:
  "concat (map (written env)
     (ingested_ids (loaded_of (tbl @ concat (map (written env) (ingested_ids (loaded_of tbl) ids)))) ids)) = []"
proof -
  let ?L0 = "loaded_of tbl"
  let ?L1 = "loaded_of (tbl @ concat (map (written env) (ingested_ids ?L0 ids)))"
  have "written env b = []" if b: "b \<in> set (ingested_ids ?L1 ids)" for b
  proof (rule ccontr)
    assume ne: "written env b \<noteq> []"
    have "\<And>n. py_in n ?L0 \<Longrightarrow> py_in n ?L1"
      by (simp add: loaded_of_append py_in_union)
    from ingested_ids_mono [of ?L0 ?L1 ids, OF this] b have "b \<in> set (ingested_ids ?L0 ids)"
      by blast
    with ne have "py_in (the_int b) ?L1"
      by (auto simp: loaded_of_append py_in_union py_in_written_list)
    moreover from b ingested_ids_set [of ?L1 ids] have "\<not> py_in (the_int b) ?L1"
      by blast
    ultimately show False by simp
  qed
  then show ?thesis by simp
qed

lemma main_table_up:
  assumes "\<forall>k. conn_up env k"
  shows "table (snd (main env w)) = table w @ run_delta env (table w)"
proof (cases "query_fault env")
  case (Some e)
  with assms show ?thesis
    by (simp add: main_def get_loaded_batches_def run_delta_def Let_def)
next
  case None
  show ?thesis
  proof (cases "get_batch_ids env")
    case (Inl e)
    with None assms show ?thesis
      by (simp add: main_def get_loaded_batches_def run_delta_def py_print_def Let_def)
  next
    case (Inr ids)
    from assms have "conn_up env (store_ops w)" by simp
    from main_loop [OF this None Inr] assms None Inr show ?thesis
      by (simp add: for_loop_table_up run_delta_def py_print_def)
  qed
qed

lemma run_delta_twice: "run_delta env (tbl @ run_delta env tbl) = []"
  by (auto simp: run_delta_def second_pass_writes_nothing split: option.splits sum.splits)

subsection \<open>When the selection and the write succeed\<close>









section \<open>The claims\<close>



text \<open>
  C2 (idempotence), as amended. While the store connection stays up, a second run
  against the same batch source and the table the first run left appends nothing: the
  table after the second run is the table after the first. When the loaded set can be
  read, the catalog discovered and \<open>int\<close> accepts every identifier, the second run skips
  an identifier exactly when its integer was stored before the first run or the first
  run wrote rows under that integer; the identifiers whose ingestion failed or wrote no
  rows in the first run are handed to \<open>ingest_batch\<close> again.
\<close>

theorem second_run_appends_nothing:
  assumes "\<forall>k. conn_up env k"
  shows "table (snd (main env (snd (main env w)))) = table (snd (main env w))
       \<and> (query_fault env = None \<and> get_batch_ids env = Inr ids \<and> list_all is_int_id ids \<longrightarrow>
            decisions (stdout (snd (main env (snd (main env w))))) =
              decisions (stdout (snd (main env w))) @
              map (\<lambda>b. if py_in (the_int b) (loaded_of (table w))
                           \<or> (\<exists>b'\<in>set ids. the_int b' = the_int b \<and> written env b' \<noteq> [])
                        then Skipping b else Ingesting b) ids)"
proof -
  let ?w1 = "snd (main env w)"
  have t1: "table ?w1 = table w @ run_delta env (table w)"
    using assms by (rule main_table_up)
  have "table (snd (main env ?w1)) = table ?w1 @ run_delta env (table ?w1)"
    using assms by (rule main_table_up)
  with t1 have same: "table (snd (main env ?w1)) = table ?w1"
    by (simp add: run_delta_twice)
  have dec: "decisions (stdout (snd (main env ?w1))) =
              decisions (stdout ?w1) @
              map (\<lambda>b. if py_in (the_int b) (loaded_of (table w))
                           \<or> (\<exists>b'\<in>set ids. the_int b' = the_int b \<and> written env b' \<noteq> [])
                        then Skipping b else Ingesting b) ids"
    if q: "query_fault env = None" and ids: "get_batch_ids env = Inr ids"
      and ints: "list_all is_int_id ids"
  proof -
    let ?L0 = "loaded_of (table w)"
    let ?L1 = "loaded_of (table ?w1)"
    from assms have up: "conn_up env (store_ops ?w1)" by simp
    from main_loop [OF up q ids]
    have "decisions (stdout (snd (main env ?w1))) =
            decisions (stdout ?w1) @
            map (\<lambda>b. if py_in (the_int b) ?L1 then Skipping b else Ingesting b) ids"
      using ints by (simp add: for_loop_decisions py_print_def decisions_append)
    moreover have "table ?w1 =
        table w @ concat (map (written env) (filter (\<lambda>b. \<not> py_in (the_int b) ?L0) ids))"
      using t1 q ids ints by (simp add: run_delta_def ingested_ids_all_int)
    then have "py_in n ?L1 \<longleftrightarrow>
        py_in n ?L0 \<or> (\<exists>b'\<in>set ids. the_int b' = n \<and> written env b' \<noteq> [])" for n
      by (auto simp: loaded_of_append py_in_union py_in_written_list)
    ultimately show ?thesis by simp
  qed
  from same dec show ?thesis by blast
qed

text \<open>
  An example: the source lists 1 and 2, and the fetch of batch 2 is answered with status
  404. The first run loads batch 1. The second run appends nothing, skips batch 1 and
  hands batch 2 to \<open>ingest_batch\<close> again.
\<close>

theorem second_run_appends_nothing_example:
  "main (example_env [IntCell 1, IntCell 2] [batch_data_url ''2'' \<mapsto> 404]) empty_world =
     (None, \<lparr>table = [stored_frame 1], store_ops = 2,
             stdout = [AlreadyLoaded {}, Ingesting ''1'', Loaded ''1'' 2,
                       Ingesting ''2'', ErrorLoading ''2'' (HTTPError 404)]\<rparr>)
   \<and> table (snd (main (example_env [IntCell 1, IntCell 2] [batch_data_url ''2'' \<mapsto> 404])
        (snd (main (example_env [IntCell 1, IntCell 2] [batch_data_url ''2'' \<mapsto> 404]) empty_world)))) =
       [stored_frame 1]
   \<and> decisions (stdout (snd (main (example_env [IntCell 1, IntCell 2] [batch_data_url ''2'' \<mapsto> 404])
        (snd (main (example_env [IntCell 1, IntCell 2] [batch_data_url ''2'' \<mapsto> 404]) empty_world))))) =
       [Ingesting ''1'', Ingesting ''2'', Skipping ''1'', Ingesting ''2'']"
proof -
  let ?env = "example_env [IntCell 1, IntCell 2] [batch_data_url ''2'' \<mapsto> 404]"
  have up: "\<forall>k. conn_up ?env k"
    by (simp add: example_env_def)
  have run1: "main ?env empty_world =
     (None, \<lparr>table = [stored_frame 1], store_ops = 2,
             stdout = [AlreadyLoaded {}, Ingesting ''1'', Loaded ''1'' 2,
                       Ingesting ''2'', ErrorLoading ''2'' (HTTPError 404)]\<rparr>)"
    by (simp add: example_simps)
  have run2: "main ?env \<lparr>table = [stored_frame 1], store_ops = 2,
             stdout = [AlreadyLoaded {}, Ingesting ''1'', Loaded ''1'' 2,
                       Ingesting ''2'', ErrorLoading ''2'' (HTTPError 404)]\<rparr> =
     (None, \<lparr>table = [stored_frame 1], store_ops = 3,
             stdout = [AlreadyLoaded {}, Ingesting ''1'', Loaded ''1'' 2,
                       Ingesting ''2'', ErrorLoading ''2'' (HTTPError 404),
                       AlreadyLoaded {IntCell 1}, Skipping ''1'',
                       Ingesting ''2'', ErrorLoading ''2'' (HTTPError 404)]\<rparr>)"
    by (simp add: example_simps)
  from second_run_appends_nothing [OF up, of empty_world]
  have "table (snd (main ?env (snd (main ?env empty_world)))) = table (snd (main ?env empty_world))"
    by blast
  then have t: "table (snd (main ?env (snd (main ?env empty_world)))) = [stored_frame 1]"
    by (simp add: run1)
  have d: "decisions (stdout (snd (main ?env (snd (main ?env empty_world))))) =
       [Ingesting ''1'', Ingesting ''2'', Skipping ''1'', Ingesting ''2'']"
    by (simp add: run1 run2)
  from run1 t d show ?thesis by blast
qed

text \<open>
  C2 as stated fails: in the second run of this example, started from the table the
  first run left and with nothing printed yet, batch 2 is not found in the loaded set
  and does not land in skipped. It is ingested again, and fails again.
\<close>

theorem second_run_not_all_skipped:
  "main (example_env [IntCell 1, IntCell 2] [batch_data_url ''2'' \<mapsto> 404])
     ((snd (main (example_env [IntCell 1, IntCell 2] [batch_data_url ''2'' \<mapsto> 404]) empty_world))
        \<lparr>stdout := []\<rparr>) =
     (None, \<lparr>table = [stored_frame 1], store_ops = 3,
             stdout = [AlreadyLoaded {IntCell 1}, Skipping ''1'',
                       Ingesting ''2'', ErrorLoading ''2'' (HTTPError 404)]\<rparr>)
   \<and> \<not> py_in 2 (loaded_of (table (snd (main (example_env [IntCell 1, IntCell 2]
              [batch_data_url ''2'' \<mapsto> 404]) empty_world))))"
proof -
  let ?env = "example_env [IntCell 1, IntCell 2] [batch_data_url ''2'' \<mapsto> 404]"
  have run1: "main ?env empty_world =
     (None, \<lparr>table = [stored_frame 1], store_ops = 2,
             stdout = [AlreadyLoaded {}, Ingesting ''1'', Loaded ''1'' 2,
                       Ingesting ''2'', ErrorLoading ''2'' (HTTPError 404)]\<rparr>)"
    by (simp add: example_simps)
  have run2: "main ?env \<lparr>table = [stored_frame 1], store_ops = 2, stdout = []\<rparr> =
     (None, \<lparr>table = [stored_frame 1], store_ops = 3,
             stdout = [AlreadyLoaded {IntCell 1}, Skipping ''1'',
                       Ingesting ''2'', ErrorLoading ''2'' (HTTPError 404)]\<rparr>)"
    by (simp add: example_simps)
  have "\<not> py_in 2 (loaded_of [stored_frame 1])"
    by (simp add: example_simps)
  with run1 run2 show ?thesis by simp
qed

text \<open>
  C3 (skip correctness). When the loaded set can be read and the catalog discovered,
  \<open>get_loaded_batches\<close> returns the stored \<open>BATCH_ID\<close> values of the table as it is at the
  start, and the run takes the discovered identifiers one by one, in order: an
  identifier is skipped, with nothing done but the line printed, exactly when its
  integer is equal to one of those values, and otherwise \<open>ingest_batch\<close> is called with
  it. The comparison is between the integer of the identifier and the stored values, so
  the literal form on either side is immaterial. While the connection is up, the table
  receives what the identifiers that are not skipped write, and nothing else.
\<close>

theorem skip_correctness:
  assumes "conn_up env (store_ops w)" and "query_fault env = None"
    and "get_batch_ids env = Inr ids" and "list_all is_int_id ids"
  shows "fst (get_loaded_batches env w) = Inr (loaded_of (table w))
       \<and> main env w =
           (None, foldl (skip_or_ingest env (loaded_of (table w)))
                    (py_print (AlreadyLoaded (loaded_of (table w))) (w\<lparr>store_ops := Suc (store_ops w)\<rparr>))
                    ids)
       \<and> decisions (stdout (snd (main env w))) =
           decisions (stdout w) @
           map (\<lambda>b. if py_in (the_int b) (loaded_of (table w)) then Skipping b else Ingesting b) ids
       \<and> ((\<forall>k. conn_up env k) \<longrightarrow>
            table (snd (main env w)) =
              table w @ concat (map (written env)
                                 (filter (\<lambda>b. \<not> py_in (the_int b) (loaded_of (table w))) ids)))"
proof -
  let ?L = "loaded_of (table w)"
  let ?w2 = "py_print (AlreadyLoaded ?L) (w\<lparr>store_ops := Suc (store_ops w)\<rparr>)"
  have m: "main env w = for_loop env ?L ids ?w2"
    using assms by (simp add: main_loop)
  have "fst (get_loaded_batches env w) = Inr ?L"
    using assms by (simp add: get_loaded_batches_ok)
  moreover have "main env w = (None, foldl (skip_or_ingest env ?L) ?w2 ids)"
    using assms m by (simp add: for_loop_fold)
  moreover have "decisions (stdout (snd (main env w))) =
           decisions (stdout w) @ map (\<lambda>b. if py_in (the_int b) ?L then Skipping b else Ingesting b) ids"
    using assms m by (simp add: for_loop_decisions py_print_def decisions_append)
  moreover have "(\<forall>k. conn_up env k) \<longrightarrow>
            table (snd (main env w)) =
              table w @ concat (map (written env) (filter (\<lambda>b. \<not> py_in (the_int b) ?L) ids))"
    using assms m by (simp add: for_loop_table_up ingested_ids_all_int py_print_def)
  ultimately show ?thesis by blast
qed

text \<open>
  The example of the claim: the table holds batches 10 and 11, the source lists 10, 11
  and 12. Only 12 is ingested. The identifier \<open>" 010 "\<close> has the integer 10, which is
  found among stored values that hold the number \<open>10.0\<close>, and not among stored values
  that hold the text \<open>"10"\<close>.
\<close>

theorem skip_correctness_example:
  "loaded_of [stored_frame 10, stored_frame 11] = {IntCell 10, IntCell 11}
   \<and> get_batch_ids (example_env [IntCell 10, IntCell 11, IntCell 12] Map.empty) = Inr [''10'', ''11'', ''12'']
   \<and> main (example_env [IntCell 10, IntCell 11, IntCell 12] Map.empty)
        \<lparr>table = [stored_frame 10, stored_frame 11], store_ops = 0, stdout = []\<rparr> =
       (None, \<lparr>table = [stored_frame 10, stored_frame 11, stored_frame 12], store_ops = 2,
               stdout = [AlreadyLoaded {IntCell 10, IntCell 11}, Skipping ''10'', Skipping ''11'',
                         Ingesting ''12'', Loaded ''12'' 2]\<rparr>)
   \<and> decisions (stdout (snd (main (example_env [IntCell 10, IntCell 11, IntCell 12] Map.empty)
        \<lparr>table = [stored_frame 10, stored_frame 11], store_ops = 0, stdout = []\<rparr>))) =
       [Skipping ''10'', Skipping ''11'', Ingesting ''12'']
   \<and> the_int '' 010 '' = 10
   \<and> py_in (the_int '' 010 '') {NumCell 10 ''10.0''}
   \<and> \<not> py_in (the_int '' 010 '') {TextCell ''10''}"
proof -
  let ?env = "example_env [IntCell 10, IntCell 11, IntCell 12] Map.empty"
  let ?w = "\<lparr>table = [stored_frame 10, stored_frame 11], store_ops = 0, stdout = []\<rparr>"
  have up: "conn_up ?env (store_ops ?w)" and q: "query_fault ?env = None"
    by (simp_all add: example_env_def)
  have ids: "get_batch_ids ?env = Inr [''10'', ''11'', ''12'']"
    by (simp add: example_simps)
  have ints: "list_all is_int_id [''10'', ''11'', ''12'']"
    by (simp add: is_int_id_def py_int_examples)
  have L: "loaded_of [stored_frame 10, stored_frame 11] = {IntCell 10, IntCell 11}"
    by (simp add: example_simps)
  have run: "main ?env ?w =
       (None, \<lparr>table = [stored_frame 10, stored_frame 11, stored_frame 12], store_ops = 2,
               stdout = [AlreadyLoaded {IntCell 10, IntCell 11}, Skipping ''10'', Skipping ''11'',
                         Ingesting ''12'', Loaded ''12'' 2]\<rparr>)"
    by (simp add: example_simps)
  from skip_correctness [OF up q ids ints]
  have "decisions (stdout (snd (main ?env ?w))) =
          decisions (stdout ?w) @
          map (\<lambda>b. if py_in (the_int b) (loaded_of (table ?w)) then Skipping b else Ingesting b)
            [''10'', ''11'', ''12'']"
    by blast
  then have "decisions (stdout (snd (main ?env ?w))) = [Skipping ''10'', Skipping ''11'', Ingesting ''12'']"
    by (simp add: L the_int_def py_int_examples py_in_def)
  moreover have "py_int '' 010 '' = Inr 10"
    by (simp add: string_defs)
  then have "the_int '' 010 '' = 10" and "py_in (the_int '' 010 '') {NumCell 10 ''10.0''}"
    and "\<not> py_in (the_int '' 010 '') {TextCell ''10''}"
    by (simp_all add: the_int_def py_in_def)
  ultimately show ?thesis using L ids run by blast
qed

text \<open>
  C4 (the row count), as amended. \<open>ingest_batch\<close> has no \<open>return\<close> statement: it hands
  \<open>None\<close> back to its caller in every case, and what it has to say it prints. When the
  \<open>try\<close> block runs to its end, the line printed carries the row count of the parsed
  payload, and the table has grown by exactly that many rows; when a statement raises,
  the line printed carries the error, and the table has the rows it had.
\<close>

theorem row_count_reported:
  "fst (ingest_batch env b w) = PyNone
   \<and> (ingest_batch_try env b w = (None, w') \<longrightarrow>
        (\<exists>r df0. http_get env (batch_data_url b) = Inr r \<and> read_csv env (body r) = Inr df0
           \<and> ingest_batch env b w = (PyNone, w')
           \<and> stdout w' = stdout w @ [Loaded b (nrows df0)]
           \<and> row_count (table w') = row_count (table w) + nrows df0))
   \<and> (ingest_batch_try env b w = (Some e, w') \<longrightarrow>
        ingest_batch env b w = (PyNone, py_print (ErrorLoading b e) w')
        \<and> stdout w' = stdout w
        \<and> row_count (table w') = row_count (table w))"
proof -
  have ok: "\<exists>r df0. http_get env (batch_data_url b) = Inr r \<and> read_csv env (body r) = Inr df0
           \<and> ingest_batch env b w = (PyNone, w')
           \<and> stdout w' = stdout w @ [Loaded b (nrows df0)]
           \<and> row_count (table w') = row_count (table w) + nrows df0"
    if t: "ingest_batch_try env b w = (None, w')"
  proof -
    from ingest_success [OF t] obtain sel where bf: "batch_frame env b = Inr sel"
      and d: "distinct (map fst (cols sel))"
      and w': "w' = w\<lparr>store_ops := Suc (store_ops w),
                       table := table w @ (if nrows sel = 0 then [] else [sel]),
                       stdout := stdout w @ [Loaded b (nrows sel)]\<rparr>"
      by blast
    from frame_shape [OF bf d] obtain r df0 where r: "http_get env (batch_data_url b) = Inr r"
      and df0: "read_csv env (body r) = Inr df0" and n: "nrows sel = nrows df0"
      by auto
    from w' n have "stdout w' = stdout w @ [Loaded b (nrows df0)]"
      and "row_count (table w') = row_count (table w) + nrows df0"
      by (simp_all add: row_count_def)
    with r df0 t show ?thesis by (simp add: ingest_batch_def)
  qed
  have err: "ingest_batch env b w = (PyNone, py_print (ErrorLoading b e) w')
        \<and> stdout w' = stdout w \<and> row_count (table w') = row_count (table w)"
    if t: "ingest_batch_try env b w = (Some e, w')"
    using ingest_batch_caught [OF t] ingest_batch_try_stdout [OF t] by simp
  from ok err show ?thesis by (simp add: ingest_batch_fst)
qed

text \<open>
  An example: batch 1 of the example source has two rows. The call prints the count 2,
  appends two rows, and returns \<open>None\<close>. The call for a batch whose fetch is answered
  with status 500 prints the error and returns \<open>None\<close>.
\<close>

theorem row_count_reported_example:
  "ingest_batch_try (example_env [] Map.empty) ''1'' empty_world =
     (None, \<lparr>table = [stored_frame 1], store_ops = 1, stdout = [Loaded ''1'' 2]\<rparr>)
   \<and> nrows orders_frame = 2
   \<and> row_count [stored_frame 1] = 2
   \<and> ingest_batch (example_env [] Map.empty) ''1'' empty_world =
     (PyNone, \<lparr>table = [stored_frame 1], store_ops = 1, stdout = [Loaded ''1'' 2]\<rparr>)
   \<and> ingest_batch_try (example_env [] [batch_data_url ''2'' \<mapsto> 500]) ''2'' empty_world =
     (Some (HTTPError 500), empty_world)
   \<and> ingest_batch (example_env [] [batch_data_url ''2'' \<mapsto> 500]) ''2'' empty_world =
     (PyNone, py_print (ErrorLoading ''2'' (HTTPError 500)) empty_world)"
proof -
  let ?env = "example_env [] Map.empty"
  let ?w' = "\<lparr>table = [stored_frame 1], store_ops = 1, stdout = [Loaded ''1'' 2]\<rparr>"
  have t: "ingest_batch_try ?env ''1'' empty_world = (None, ?w')"
    by (simp add: example_simps)
  from row_count_reported [of ?env "''1''" empty_world ?w'] t
  have "ingest_batch ?env ''1'' empty_world = (PyNone, ?w')"
    by blast
  moreover have "nrows orders_frame = 2" and "row_count [stored_frame 1] = 2"
    by (simp_all add: orders_frame_def stored_frame_def row_count_def)
  moreover have t2: "ingest_batch_try (example_env [] [batch_data_url ''2'' \<mapsto> 500]) ''2'' empty_world =
     (Some (HTTPError 500), empty_world)"
    by (simp add: example_simps)
  moreover from row_count_reported
      [of "example_env [] [batch_data_url ''2'' \<mapsto> 500]" "''2''" empty_world empty_world "HTTPError 500"] t2
  have "ingest_batch (example_env [] [batch_data_url ''2'' \<mapsto> 500]) ''2'' empty_world =
     (PyNone, py_print (ErrorLoading ''2'' (HTTPError 500)) empty_world)"
    by blast
  ultimately show ?thesis using t by blast
qed

text \<open>
  C4 as stated fails: the call that loads the two rows of batch 1 does not return the
  row count 2, and the caller gets from it what it gets from the call that fails on
  batch 2.
\<close>

theorem ingest_batch_returns_none:
  "fst (ingest_batch (example_env [] [batch_data_url ''2'' \<mapsto> 500]) ''1'' empty_world) \<noteq> PyInt 2
   \<and> stdout (snd (ingest_batch (example_env [] [batch_data_url ''2'' \<mapsto> 500]) ''1'' empty_world)) =
       [Loaded ''1'' 2]
   \<and> stdout (snd (ingest_batch (example_env [] [batch_data_url ''2'' \<mapsto> 500]) ''2'' empty_world)) =
       [ErrorLoading ''2'' (HTTPError 500)]
   \<and> fst (ingest_batch (example_env [] [batch_data_url ''2'' \<mapsto> 500]) ''1'' empty_world) =
     fst (ingest_batch (example_env [] [batch_data_url ''2'' \<mapsto> 500]) ''2'' empty_world)"
  by (simp add: example_simps)



text \<open>
  C6 (loss of the connection), as amended. Loss of the store connection ends the run
  only where no handler surrounds the store: when the loaded set is read before the
  loop. A write that fails because the connection is lost is caught in \<open>ingest_batch\<close>
  like any other error of a batch: it is printed as the error of that batch, nothing is
  appended, and the loop goes on. So with the connection down for the rest of the run,
  the loop still takes every identifier in turn and runs to the end of the list; every
  outcome it prints is an error, and the table is as it was.
\<close>

theorem connection_loss_contained:
  "(\<not> conn_up env (store_ops w) \<longrightarrow>
      main env w = (Some (DatabaseError ''connection lost''), w\<lparr>store_ops := Suc (store_ops w)\<rparr>))
   \<and> (batch_frame env b = Inr sel \<and> \<not> conn_up env (store_ops w) \<longrightarrow>
       ingest_batch env b w =
         (PyNone, py_print (ErrorLoading b (DatabaseError ''connection lost''))
                    (w\<lparr>store_ops := Suc (store_ops w)\<rparr>)))
   \<and> (list_all is_int_id ids \<and> (\<forall>k\<ge>store_ops w. \<not> conn_up env k) \<longrightarrow>
       for_loop env L ids w = (None, foldl (skip_or_ingest env L) w ids)
       \<and> table (snd (for_loop env L ids w)) = table w
       \<and> (list_all is_error (outcomes (stdout w)) \<longrightarrow>
            list_all is_error (outcomes (stdout (snd (for_loop env L ids w)))))
       \<and> map outcome_id (outcomes (stdout (snd (for_loop env L ids w)))) =
           map outcome_id (outcomes (stdout w)) @ filter (\<lambda>b. \<not> py_in (the_int b) L) ids)"
proof -
  have a: "\<not> conn_up env (store_ops w) \<longrightarrow>
      main env w = (Some (DatabaseError ''connection lost''), w\<lparr>store_ops := Suc (store_ops w)\<rparr>)"
    by (simp add: main_def get_loaded_batches_def Let_def)
  have b: "batch_frame env b = Inr sel \<and> \<not> conn_up env (store_ops w) \<longrightarrow>
       ingest_batch env b w =
         (PyNone, py_print (ErrorLoading b (DatabaseError ''connection lost''))
                    (w\<lparr>store_ops := Suc (store_ops w)\<rparr>))"
    using ingest_batch_write_down [of env b sel w] by blast
  have c: "for_loop env L ids w = (None, foldl (skip_or_ingest env L) w ids)
       \<and> table (snd (for_loop env L ids w)) = table w
       \<and> (list_all is_error (outcomes (stdout w)) \<longrightarrow>
            list_all is_error (outcomes (stdout (snd (for_loop env L ids w)))))
       \<and> map outcome_id (outcomes (stdout (snd (for_loop env L ids w)))) =
           map outcome_id (outcomes (stdout w)) @ filter (\<lambda>b. \<not> py_in (the_int b) L) ids"
    if "list_all is_int_id ids" and "\<forall>k\<ge>store_ops w. \<not> conn_up env k"
    using for_loop_fold [OF that(1), of env L w] for_loop_down [OF that, of L]
      for_loop_outcomes [OF that(1), of env L w]
    by blast
  from a b c show ?thesis by blast
qed

text \<open>
  An example: the connection is lost after the first write. The writes of batches 2
  and 3 fail and are reported, and the run completes.
\<close>

theorem connection_loss_contained_example:
  "list_all is_int_id [''2'', ''3'']
   \<and> for_loop ((example_env [] Map.empty)\<lparr>conn_up := (\<lambda>k. k < 2)\<rparr>) {} [''2'', ''3'']
        \<lparr>table = [stored_frame 1], store_ops = 2, stdout = []\<rparr> =
       (None, \<lparr>table = [stored_frame 1], store_ops = 4,
               stdout = [Ingesting ''2'', ErrorLoading ''2'' (DatabaseError ''connection lost''),
                         Ingesting ''3'', ErrorLoading ''3'' (DatabaseError ''connection lost'')]\<rparr>)
   \<and> table (snd (for_loop ((example_env [] Map.empty)\<lparr>conn_up := (\<lambda>k. k < 2)\<rparr>) {} [''2'', ''3'']
        \<lparr>table = [stored_frame 1], store_ops = 2, stdout = []\<rparr>)) = [stored_frame 1]"
proof -
  let ?env = "(example_env [] Map.empty)\<lparr>conn_up := (\<lambda>k. k < 2)\<rparr>"
  let ?w = "\<lparr>table = [stored_frame 1], store_ops = 2, stdout = []\<rparr>"
  have ids: "list_all is_int_id [''2'', ''3'']"
    by (simp add: is_int_id_def py_int_examples)
  have down: "\<forall>k\<ge>store_ops ?w. \<not> conn_up ?env k"
    by (simp add: example_env_def)
  have run: "for_loop ?env {} [''2'', ''3''] ?w =
       (None, \<lparr>table = [stored_frame 1], store_ops = 4,
               stdout = [Ingesting ''2'', ErrorLoading ''2'' (DatabaseError ''connection lost''),
                         Ingesting ''3'', ErrorLoading ''3'' (DatabaseError ''connection lost'')]\<rparr>)"
    by (simp add: example_simps)
  from connection_loss_contained [of ?env ?w _ _ "[''2'', ''3'']" "{}"] ids down
  have "table (snd (for_loop ?env {} [''2'', ''3''] ?w)) = table ?w"
    by blast
  then have "table (snd (for_loop ?env {} [''2'', ''3''] ?w)) = [stored_frame 1]"
    by simp
  with ids run show ?thesis by blast
qed

text \<open>
  C6 as stated fails: in this run the connection is lost after batch 1 has been written.
  The writes of batches 2 and 3 fail because of it, and the run does not end with an
  error: it completes, with both failures reported as errors of their batches.
\<close>

theorem connection_loss_not_fatal:
  "main ((example_env [IntCell 1, IntCell 2, IntCell 3] Map.empty)\<lparr>conn_up := (\<lambda>k. k < 2)\<rparr>) empty_world =
     (None, \<lparr>table = [stored_frame 1], store_ops = 4,
             stdout = [AlreadyLoaded {}, Ingesting ''1'', Loaded ''1'' 2,
                       Ingesting ''2'', ErrorLoading ''2'' (DatabaseError ''connection lost''),
                       Ingesting ''3'', ErrorLoading ''3'' (DatabaseError ''connection lost'')]\<rparr>)"
  by (simp add: example_simps)

text \<open>
  C7 (fatal errors before the loop). No handler surrounds \<open>get_loaded_batches\<close> and
  \<open>get_batch_ids\<close>, so what they raise ends the run. A lost connection or a refused
  query ends it with that error before anything is printed; a failed discovery ends it
  after the line that shows the loaded set. In each case the table is untouched and no
  batch is looked at. Discovery fails when the request cannot be completed, when the
  answer has a status from 400 to 599 (those for which \<open>raise_for_status\<close> raises), when
  the payload cannot be parsed, and when it has no \<open>batch_id\<close> column.
\<close>

theorem preloop_errors_fatal:
  "(\<not> conn_up env (store_ops w) \<longrightarrow>
      main env w = (Some (DatabaseError ''connection lost''), w\<lparr>store_ops := Suc (store_ops w)\<rparr>))
   \<and> (conn_up env (store_ops w) \<and> query_fault env = Some e \<longrightarrow>
      main env w = (Some e, w\<lparr>store_ops := Suc (store_ops w)\<rparr>))
   \<and> (conn_up env (store_ops w) \<and> query_fault env = None \<and> get_batch_ids env = Inl e \<longrightarrow>
      main env w = (Some e, py_print (AlreadyLoaded (loaded_of (table w)))
                              (w\<lparr>store_ops := Suc (store_ops w)\<rparr>)))
   \<and> (http_get env BATCH_LIST_URL = Inl e \<longrightarrow> get_batch_ids env = Inl e)
   \<and> (http_get env BATCH_LIST_URL = Inr r \<and> 400 \<le> status_code r \<and> status_code r < 600 \<longrightarrow>
      get_batch_ids env = Inl (HTTPError (status_code r)))
   \<and> (http_get env BATCH_LIST_URL = Inr r \<and> raise_for_status r = Inr () \<and> read_csv env (body r) = Inl e \<longrightarrow>
      get_batch_ids env = Inl e)
   \<and> (http_get env BATCH_LIST_URL = Inr r \<and> raise_for_status r = Inr () \<and> read_csv env (body r) = Inr df
        \<and> ''batch_id'' \<notin> set (map fst (cols df)) \<longrightarrow>
      get_batch_ids env = Inl (KeyError [''batch_id'']))"
proof -
  have "''batch_id'' \<notin> set (map fst (cols df)) \<longrightarrow> map_of (cols df) ''batch_id'' = None"
    by (simp add: map_of_eq_None_iff)
  then show ?thesis
    by (simp add: main_def get_loaded_batches_def get_batch_ids_def raise_for_status_def
        getitem_def loaded_of_def Let_def)
qed

text \<open>
  Examples, each from the empty table: the connection is down; the store refuses the
  query; the list request is answered with status 503; the list cannot be parsed; the
  list request cannot be completed; the list has no \<open>batch_id\<close> column.
\<close>

theorem preloop_errors_fatal_example:
  "main ((example_env [IntCell 1] Map.empty)\<lparr>conn_up := (\<lambda>k. False)\<rparr>) empty_world =
     (Some (DatabaseError ''connection lost''), \<lparr>table = [], store_ops = 1, stdout = []\<rparr>)
   \<and> main ((example_env [IntCell 1] Map.empty)\<lparr>query_fault := Some (DatabaseError ''no table ORDERS'')\<rparr>)
        empty_world =
     (Some (DatabaseError ''no table ORDERS''), \<lparr>table = [], store_ops = 1, stdout = []\<rparr>)
   \<and> main ((example_env [IntCell 1] Map.empty)\<lparr>http_get := (\<lambda>u. Inr \<lparr>status_code = 503, body = []\<rparr>)\<rparr>)
        empty_world =
     (Some (HTTPError 503), \<lparr>table = [], store_ops = 1, stdout = [AlreadyLoaded {}]\<rparr>)
   \<and> main ((example_env [IntCell 1] Map.empty)\<lparr>read_csv := (\<lambda>t. Inl (ParserError t))\<rparr>) empty_world =
     (Some (ParserError (batch_list_csv [IntCell 1])),
      \<lparr>table = [], store_ops = 1, stdout = [AlreadyLoaded {}]\<rparr>)
   \<and> get_batch_ids ((example_env [IntCell 1] Map.empty)
        \<lparr>http_get := (\<lambda>u. Inl (RequestException ''connection refused''))\<rparr>) =
     Inl (RequestException ''connection refused'')
   \<and> get_batch_ids ((example_env [IntCell 1] Map.empty)
        \<lparr>read_csv := (\<lambda>t. Inr \<lparr>nrows = 1, cols = [(''id'', [IntCell 1])]\<rparr>)\<rparr>) =
     Inl (KeyError [''batch_id''])"
proof -
  let ?E = "example_env [IntCell 1] Map.empty"
  let ?e1 = "?E\<lparr>conn_up := (\<lambda>k. False)\<rparr>"
  let ?e2 = "?E\<lparr>query_fault := Some (DatabaseError ''no table ORDERS'')\<rparr>"
  let ?e3 = "?E\<lparr>http_get := (\<lambda>u. Inr \<lparr>status_code = 503, body = []\<rparr>)\<rparr>"
  let ?e4 = "?E\<lparr>read_csv := (\<lambda>t. Inl (ParserError t))\<rparr>"
  let ?r = "\<lparr>status_code = 503, body = []\<rparr>"
  let ?r4 = "\<lparr>status_code = 200, body = batch_list_csv [IntCell 1]\<rparr>"
  have a: "main ?e1 empty_world =
     (Some (DatabaseError ''connection lost''), \<lparr>table = [], store_ops = 1, stdout = []\<rparr>)"
    using preloop_errors_fatal [of ?e1 empty_world]
    by (simp add: example_env_def empty_world_def)
  have b: "main ?e2 empty_world =
     (Some (DatabaseError ''no table ORDERS''), \<lparr>table = [], store_ops = 1, stdout = []\<rparr>)"
    using preloop_errors_fatal [of ?e2 empty_world "DatabaseError ''no table ORDERS''"]
    by (simp add: example_env_def empty_world_def)
  have c3: "get_batch_ids ?e3 = Inl (HTTPError 503)"
    using preloop_errors_fatal [of ?e3 empty_world _ ?r]
    by (simp add: example_env_def)
  have c: "main ?e3 empty_world =
     (Some (HTTPError 503), \<lparr>table = [], store_ops = 1, stdout = [AlreadyLoaded {}]\<rparr>)"
    using preloop_errors_fatal [of ?e3 empty_world "HTTPError 503"] c3
    by (simp add: example_env_def empty_world_def py_print_def loaded_of_def
        select_distinct_batch_id_def)
  have d4: "get_batch_ids ?e4 = Inl (ParserError (batch_list_csv [IntCell 1]))"
    using preloop_errors_fatal [of ?e4 empty_world "ParserError (batch_list_csv [IntCell 1])" ?r4]
    by (simp add: example_env_def raise_for_status_def)
  have d: "main ?e4 empty_world =
     (Some (ParserError (batch_list_csv [IntCell 1])),
      \<lparr>table = [], store_ops = 1, stdout = [AlreadyLoaded {}]\<rparr>)"
    using preloop_errors_fatal [of ?e4 empty_world "ParserError (batch_list_csv [IntCell 1])"] d4
    by (simp add: example_env_def empty_world_def py_print_def loaded_of_def
        select_distinct_batch_id_def)
  let ?e5 = "?E\<lparr>http_get := (\<lambda>u. Inl (RequestException ''connection refused''))\<rparr>"
  let ?df6 = "\<lparr>nrows = 1, cols = [(''id'', [IntCell 1])]\<rparr>"
  let ?e6 = "?E\<lparr>read_csv := (\<lambda>t. Inr ?df6)\<rparr>"
  have e: "get_batch_ids ?e5 = Inl (RequestException ''connection refused'')"
    using preloop_errors_fatal [of ?e5 empty_world "RequestException ''connection refused''"]
    by simp
  have f: "get_batch_ids ?e6 = Inl (KeyError [''batch_id''])"
    using preloop_errors_fatal [of ?e6 empty_world _ ?r4 ?df6]
    by (simp add: example_env_def raise_for_status_def)
  from a b c d e f show ?thesis by blast
qed

text \<open>
  C8 (a missing batch). For an identifier with no data file, the handler of the batch
  source answers with status 404, where it answers with status 200 and the content
  for a file that exists. In the loader, \<open>raise_for_status\<close> turns that answer into the
  \<open>HTTPError\<close> of status 404, which \<open>ingest_batch\<close> catches: the batch is reported as
  failed with that error, nothing is written, and the loop goes on with the next
  identifier.
\<close>

theorem missing_batch_not_found:
  assumes "\<not> isfile fs (path_join DATA_DIR (b @ ''.csv''))"
  shows "status_code (get_batch_data fs b) = 404
       \<and> raise_for_status (get_batch_data fs b) = Inl (HTTPError 404)
       \<and> (\<forall>b' content. fs (path_join DATA_DIR (b' @ ''.csv'')) = Some content \<longrightarrow>
             get_batch_data fs b' = \<lparr>status_code = 200, body = content\<rparr>)
       \<and> (http_get env (batch_data_url b) = Inr (get_batch_data fs b) \<longrightarrow>
             ingest_batch env b w = (PyNone, py_print (ErrorLoading b (HTTPError 404)) w)
             \<and> (is_int_id b \<and> \<not> py_in (the_int b) L \<longrightarrow>
                  for_loop env L (b # rest) w =
                    for_loop env L rest
                      (py_print (ErrorLoading b (HTTPError 404)) (py_print (Ingesting b) w)))
             \<and> (list_all is_int_id (b # rest) \<longrightarrow> fst (for_loop env L (b # rest) w) = None))"
proof -
  from assms have st: "status_code (get_batch_data fs b) = 404"
    by (simp add: get_batch_data_def Let_def)
  then have rs: "raise_for_status (get_batch_data fs b) = Inl (HTTPError 404)"
    by (simp add: raise_for_status_def)
  have ok: "\<forall>b' content. fs (path_join DATA_DIR (b' @ ''.csv'')) = Some content \<longrightarrow>
             get_batch_data fs b' = \<lparr>status_code = 200, body = content\<rparr>"
    by (simp add: get_batch_data_def isfile_def Let_def)
  have ing: "ingest_batch env b w0 = (PyNone, py_print (ErrorLoading b (HTTPError 404)) w0)"
    if "http_get env (batch_data_url b) = Inr (get_batch_data fs b)" for w0
    using that st ingest_batch_status_fail [of env b "get_batch_data fs b" w0] by simp
  have loop: "for_loop env L (b # rest) w =
                for_loop env L rest (py_print (ErrorLoading b (HTTPError 404)) (py_print (Ingesting b) w))"
    if "http_get env (batch_data_url b) = Inr (get_batch_data fs b)"
      and "is_int_id b" and "\<not> py_in (the_int b) L"
    using that ing [OF that(1), of "py_print (Ingesting b) w"]
    by (auto simp: is_int_id_def the_int_def split: sum.splits)
  have fin: "list_all is_int_id (b # rest) \<longrightarrow> fst (for_loop env L (b # rest) w) = None"
    using for_loop_completes [of "b # rest" env L w] by blast
  from st rs ok ing loop fin show ?thesis by blast
qed

text \<open>
  An example: the server holds the file of batch 1 only, and the source lists 7 and 1.
  Batch 7 is reported as failed with status 404, and batch 1 is then loaded.
\<close>

theorem missing_batch_not_found_example:
  "\<not> isfile example_files (path_join DATA_DIR (''7'' @ ''.csv''))
   \<and> get_batch_data example_files ''7'' = \<lparr>status_code = 404, body = ''Batch data not found''\<rparr>
   \<and> get_batch_data example_files ''1'' = \<lparr>status_code = 200, body = orders_csv\<rparr>
   \<and> ingest_batch (served_env example_files [IntCell 7, IntCell 1]) ''7'' empty_world =
       (PyNone, py_print (ErrorLoading ''7'' (HTTPError 404)) empty_world)
   \<and> main (served_env example_files [IntCell 7, IntCell 1]) empty_world =
       (None, \<lparr>table = [stored_frame 1], store_ops = 2,
               stdout = [AlreadyLoaded {}, Ingesting ''7'', ErrorLoading ''7'' (HTTPError 404),
                         Ingesting ''1'', Loaded ''1'' 2]\<rparr>)"
proof -
  let ?env = "served_env example_files [IntCell 7, IntCell 1]"
  have nf: "\<not> isfile example_files (path_join DATA_DIR (''7'' @ ''.csv''))"
    by (simp add: isfile_def example_files_def path_join_def DATA_DIR_def)
  have g7: "get_batch_data example_files ''7'' = \<lparr>status_code = 404, body = ''Batch data not found''\<rparr>"
    by (simp add: get_batch_data_def isfile_def example_files_def path_join_def DATA_DIR_def)
  have g1: "get_batch_data example_files ''1'' = \<lparr>status_code = 200, body = orders_csv\<rparr>"
    by (simp add: get_batch_data_def isfile_def example_files_def path_join_def DATA_DIR_def)
  have url: "http_get ?env (batch_data_url ''7'') = Inr (get_batch_data example_files ''7'')"
    by (simp add: served_env_def example_env_def batch_data_url_def BATCH_LIST_URL_def)
  from missing_batch_not_found [OF nf, of ?env empty_world] url
  have ing: "ingest_batch ?env ''7'' empty_world =
       (PyNone, py_print (ErrorLoading ''7'' (HTTPError 404)) empty_world)"
    by blast
  have run: "main ?env empty_world =
       (None, \<lparr>table = [stored_frame 1], store_ops = 2,
               stdout = [AlreadyLoaded {}, Ingesting ''7'', ErrorLoading ''7'' (HTTPError 404),
                         Ingesting ''1'', Loaded ''1'' 2]\<rparr>)"
    by (simp add: example_simps served_env_def g7 g1)
  from nf g7 g1 ing run show ?thesis by blast
qed





end
